theory Spec2Isabelle
  imports Main
begin

section \<open>The agnostic call surface of \<open>infrar.storage\<close>\<close>

text \<open>
  The module \<^verbatim>\<open>src/infrar/storage/__init__.py\<close> defines four functions,
  \<^verbatim>\<open>upload\<close>, \<^verbatim>\<open>download\<close>, \<^verbatim>\<open>delete\<close> and \<^verbatim>\<open>list_objects\<close>, and the
  export list \<^verbatim>\<open>__all__\<close>. The body of each function is a single
  \<^verbatim>\<open>raise NotImplementedError(...)\<close>. The embedding keeps the three things the module
  consists of: the signatures (parameter names, annotations, defaults), the bodies, and the
  module namespace. Docstrings are inert and are left out.
\<close>

subsection \<open>Values, exceptions, the world\<close>

text \<open>Python values that a caller may pass; the annotations of the source are not enforced
  by Python, so an argument can be any of them.\<close>

datatype pyval =
    PNone
  | PBool bool
  | PInt int
  | PStr string
  | PList "pyval list"

text \<open>The ways in which binding the arguments of a call to a signature fails; Python raises
  \<^verbatim>\<open>TypeError\<close> in each of them.\<close>

datatype type_error =
    UnexpectedKeyword string
  | MultipleValues string
  | TooManyPositional nat nat
  | MissingRequired "string list"

datatype exn =
    NotImplementedError string
  | TypeError type_error

text \<open>Everything outside the interpreter that a function could read or change: the process
  environment (\<^verbatim>\<open>os.environ\<close>), the local files, the standard output.\<close>

record world =
  environ :: "string \<rightharpoonup> string"
  files :: "string \<rightharpoonup> string"
  stdout :: "string list"

type_synonym frame = "(string \<times> pyval) list"

type_synonym outcome = "(exn + pyval) \<times> world"

subsection \<open>Signatures and the binding of arguments\<close>

record param =
  pname :: string
  annotation :: string
  pdefault :: "pyval option"

record pyfunc =
  name :: string
  parameters :: "param list"
  returns :: string
  body :: "frame \<Rightarrow> world \<Rightarrow> outcome"

type_synonym slots = "(string \<times> pyval option) list"

text \<open>
  A call \<^verbatim>\<open>f(a1, ..., an, k1=v1, ..., km=vm)\<close> of a function whose parameters are all
  positional-or-keyword (the only kind the module declares) is bound as the interpreter does
  it: the positional arguments fill the first slots; each keyword must name a parameter whose
  slot is still empty; more positional arguments than parameters are refused; an empty slot
  takes the parameter's default, and a parameter without one is missing.
\<close>

definition bind_positional :: "param list \<Rightarrow> pyval list \<Rightarrow> slots" where
  "bind_positional ps args =
     zip (map pname ps)
         (map Some (take (length ps) args) @ replicate (length ps - length args) None)"

fun bind_keywords :: "slots \<Rightarrow> (string \<times> pyval) list \<Rightarrow> type_error + slots" where
  "bind_keywords sl [] = Inr sl"
| "bind_keywords sl ((k, v) # kws) =
     (case map_of sl k of
        None \<Rightarrow> Inl (UnexpectedKeyword k)
      | Some (Some _) \<Rightarrow> Inl (MultipleValues k)
      | Some None \<Rightarrow>
          bind_keywords (map (\<lambda>(n, s). if n = k then (n, Some v) else (n, s)) sl) kws)"

fun bind_defaults :: "param list \<Rightarrow> slots \<Rightarrow> string list \<times> frame" where
  "bind_defaults (p # ps) ((n, s) # sl) =
     (let (missing, fr) = bind_defaults ps sl
      in case s of
           Some v \<Rightarrow> (missing, (n, v) # fr)
         | None \<Rightarrow>
             (case pdefault p of
                Some d \<Rightarrow> (missing, (n, d) # fr)
              | None \<Rightarrow> (n # missing, fr)))"
| "bind_defaults _ _ = ([], [])"

definition bind_args ::
  "param list \<Rightarrow> pyval list \<Rightarrow> (string \<times> pyval) list \<Rightarrow> type_error + frame" where
  "bind_args ps args kwargs =
     (case bind_keywords (bind_positional ps args) kwargs of
        Inl e \<Rightarrow> Inl e
      | Inr sl \<Rightarrow>
          if length ps < length args
          then Inl (TooManyPositional (length ps) (length args))
          else (case bind_defaults ps sl of
                  ([], fr) \<Rightarrow> Inr fr
                | (m # ms, _) \<Rightarrow> Inl (MissingRequired (m # ms))))"

text \<open>Calling a function: a call that does not bind raises \<^verbatim>\<open>TypeError\<close> before the
  body starts; otherwise the body runs on the frame of bound parameters.\<close>

definition call :: "pyfunc \<Rightarrow> pyval list \<Rightarrow> (string \<times> pyval) list \<Rightarrow> world \<Rightarrow> outcome" where
  "call f args kwargs w =
     (case bind_args (parameters f) args kwargs of
        Inl e \<Rightarrow> (Inl (TypeError e), w)
      | Inr fr \<Rightarrow> body f fr w)"

subsection \<open>The four functions of the module\<close>

text \<open>Each body is the statement \<^verbatim>\<open>raise NotImplementedError("..." "..." "...")\<close>; the
  three adjacent literals are concatenated, as written in each function.\<close>

definition upload_body :: "frame \<Rightarrow> world \<Rightarrow> outcome" where
  "upload_body fr w =
     (Inl (NotImplementedError
        (''This function is transformed at deployment time. ''
         @ ''For local development, set INFRAR_PROVIDER environment variable ''
         @ ''or install provider-specific extras: pip install infrar[aws]'')), w)"

definition download_body :: "frame \<Rightarrow> world \<Rightarrow> outcome" where
  "download_body fr w =
     (Inl (NotImplementedError
        (''This function is transformed at deployment time. ''
         @ ''For local development, set INFRAR_PROVIDER environment variable ''
         @ ''or install provider-specific extras: pip install infrar[aws]'')), w)"

definition delete_body :: "frame \<Rightarrow> world \<Rightarrow> outcome" where
  "delete_body fr w =
     (Inl (NotImplementedError
        (''This function is transformed at deployment time. ''
         @ ''For local development, set INFRAR_PROVIDER environment variable ''
         @ ''or install provider-specific extras: pip install infrar[aws]'')), w)"

definition list_objects_body :: "frame \<Rightarrow> world \<Rightarrow> outcome" where
  "list_objects_body fr w =
     (Inl (NotImplementedError
        (''This function is transformed at deployment time. ''
         @ ''For local development, set INFRAR_PROVIDER environment variable ''
         @ ''or install provider-specific extras: pip install infrar[aws]'')), w)"

definition required :: "string \<Rightarrow> string \<Rightarrow> param" where
  "required n a = \<lparr>pname = n, annotation = a, pdefault = None\<rparr>"

definition optional :: "string \<Rightarrow> string \<Rightarrow> pyval \<Rightarrow> param" where
  "optional n a d = \<lparr>pname = n, annotation = a, pdefault = Some d\<rparr>"

text \<open>\<^verbatim>\<open>def upload(bucket: str, source: str, destination: str) -> None\<close>\<close>

definition upload :: pyfunc where
  "upload =
     \<lparr>name = ''upload'',
      parameters = [required ''bucket'' ''str'', required ''source'' ''str'',
                    required ''destination'' ''str''],
      returns = ''None'',
      body = upload_body\<rparr>"

text \<open>\<^verbatim>\<open>def download(bucket: str, source: str, destination: str) -> None\<close>\<close>

definition download :: pyfunc where
  "download =
     \<lparr>name = ''download'',
      parameters = [required ''bucket'' ''str'', required ''source'' ''str'',
                    required ''destination'' ''str''],
      returns = ''None'',
      body = download_body\<rparr>"

text \<open>\<^verbatim>\<open>def delete(bucket: str, path: str) -> None\<close>\<close>

definition delete :: pyfunc where
  "delete =
     \<lparr>name = ''delete'',
      parameters = [required ''bucket'' ''str'', required ''path'' ''str''],
      returns = ''None'',
      body = delete_body\<rparr>"

text \<open>\<^verbatim>\<open>def list_objects(bucket: str, prefix: str = "") -> List[str]\<close>\<close>

definition list_objects :: pyfunc where
  "list_objects =
     \<lparr>name = ''list_objects'',
      parameters = [required ''bucket'' ''str'', optional ''prefix'' ''str'' (PStr '''')],
      returns = ''List[str]'',
      body = list_objects_body\<rparr>"

subsection \<open>The module namespace and its export list\<close>

datatype pyobj =
    Value pyval
  | Function pyfunc
  | Imported string string

text \<open>The names the module binds, in the order of the statements that bind them:
  \<^verbatim>\<open>from typing import List, Optional\<close>, the assignment to \<^verbatim>\<open>__all__\<close>, the four
  \<^verbatim>\<open>def\<close>s.\<close>

definition storage :: "(string \<times> pyobj) list" where
  "storage =
     [(''List'', Imported ''typing'' ''List''),
      (''Optional'', Imported ''typing'' ''Optional''),
      (''__all__'', Value (PList [PStr ''upload'', PStr ''download'', PStr ''delete'',
                                    PStr ''list_objects''])),
      (''upload'', Function upload),
      (''download'', Function download),
      (''delete'', Function delete),
      (''list_objects'', Function list_objects)]"

fun str_items :: "pyval list \<Rightarrow> string list option" where
  "str_items [] = Some []"
| "str_items (PStr s # vs) = map_option ((#) s) (str_items vs)"
| "str_items (_ # vs) = None"

text \<open>The public names of a module, those that \<^verbatim>\<open>from module import *\<close> binds: the
  items of \<^verbatim>\<open>__all__\<close> when the module defines it as a list of strings, and without
  \<^verbatim>\<open>__all__\<close> every bound name that does not start with an underscore. The result is
  \<open>None\<close> where \<^verbatim>\<open>__all__\<close> is anything else.\<close>

definition exports :: "(string \<times> pyobj) list \<Rightarrow> string list option" where
  "exports m =
     (case map_of m ''__all__'' of
        None \<Rightarrow> Some (filter (\<lambda>n. take 1 n \<noteq> ''_'') (map fst m))
      | Some (Value (PList vs)) \<Rightarrow> str_items vs
      | Some _ \<Rightarrow> None)"

fun is_function :: "pyobj option \<Rightarrow> bool" where
  "is_function (Some (Function f)) = True"
| "is_function _ = False"

section \<open>Properties of the binding of arguments\<close>

text \<open>Keywords fill slots and never rename them.\<close>

lemma bind_keywords_names:
  "bind_keywords sl kws = Inr sl' \<Longrightarrow> map fst sl' = map fst sl"
proof (induction kws arbitrary: sl)
  case Nil
  then show ?case by simp
next
  case (Cons kv kws)
  obtain k v where kv: "kv = (k, v)" by (cases kv)
  let ?sl = "map (\<lambda>(n, s). if n = k then (n, Some v) else (n, s)) sl"
  from Cons.prems kv have "bind_keywords ?sl kws = Inr sl'"
    by (simp split: option.splits)
  then have "map fst sl' = map fst ?sl" by (rule Cons.IH)
  also have "map fst ?sl = map fst sl" by (induction sl) auto
  finally show ?case .
qed

text \<open>A slot filled after the keywords was filled before them or is named by one.\<close>

lemma bind_keywords_filled:
  "bind_keywords sl kws = Inr sl' \<Longrightarrow> (n, Some v) \<in> set sl' \<Longrightarrow>
     (\<exists>u. (n, Some u) \<in> set sl) \<or> n \<in> fst ` set kws"
proof (induction kws arbitrary: sl)
  case Nil
  then show ?case by auto
next
  case (Cons kv kws)
  obtain k x where kv: "kv = (k, x)" by (cases kv)
  let ?sl = "map (\<lambda>(n, s). if n = k then (n, Some x) else (n, s)) sl"
  from Cons.prems(1) kv have "bind_keywords ?sl kws = Inr sl'"
    by (simp split: option.splits)
  from Cons.IH [OF this Cons.prems(2)]
  have "(\<exists>u. (n, Some u) \<in> set ?sl) \<or> n \<in> fst ` set kws" .
  then show ?case
  proof
    assume "\<exists>u. (n, Some u) \<in> set ?sl"
    then obtain u where "(n, Some u) \<in> set ?sl" ..
    then have "n = k \<or> (n, Some u) \<in> set sl" by (auto split: if_splits)
    with kv show ?thesis by auto
  next
    assume "n \<in> fst ` set kws"
    then show ?thesis by simp
  qed
qed

text \<open>Positional arguments fill only the first slots, one per argument.\<close>

lemma bind_positional_filled:
  "(n, Some v) \<in> set (bind_positional ps args) \<Longrightarrow>
     n \<in> set (take (length args) (map pname ps))"
proof -
  assume a: "(n, Some v) \<in> set (bind_positional ps args)"
  let ?vs = "map Some (take (length ps) args) @ replicate (length ps - length args) None"
  from a obtain i where i: "i < length (map pname ps)" "i < length ?vs"
      "map pname ps ! i = n" "?vs ! i = Some v"
    unfolding bind_positional_def by (auto simp: set_zip)
  have "i < length args"
  proof (rule ccontr)
    assume "\<not> i < length args"
    with i(2) have "?vs ! i = None" by (simp add: nth_append)
    with i(4) show False by simp
  qed
  with i(1,3) show ?thesis by (auto simp: in_set_conv_nth)
qed

text \<open>When nothing is missing, every parameter without a default has a filled slot.\<close>

lemma bind_defaults_required:
  "bind_defaults ps sl = ([], fr) \<Longrightarrow> length sl = length ps \<Longrightarrow>
     (p, (n, s)) \<in> set (zip ps sl) \<Longrightarrow> pdefault p = None \<Longrightarrow> \<exists>v. s = Some v"
proof (induction ps sl arbitrary: fr rule: bind_defaults.induct)
  case (1 p' ps n' s' sl)
  then show ?case
    by (auto split: prod.splits option.splits)
qed auto

text \<open>A call that binds supplies every parameter that has no default, by position or by
  keyword.\<close>

lemma bind_args_supplied:
  assumes "bind_args ps args kwargs = Inr fr" "p \<in> set ps" "pdefault p = None"
  shows "pname p \<in> set (take (length args) (map pname ps)) \<union> fst ` set kwargs"
proof -
  from assms(1) obtain sl where sl: "bind_keywords (bind_positional ps args) kwargs = Inr sl"
    and le: "\<not> length ps < length args"
    and df: "bind_defaults ps sl = ([], fr)"
    by (auto simp: bind_args_def split: sum.splits if_splits prod.splits list.splits)
  have names: "map fst sl = map pname ps"
    using bind_keywords_names [OF sl] le by (simp add: bind_positional_def)
  then have len: "length sl = length ps" by (metis length_map)
  from assms(2) obtain i where i: "i < length ps" "ps ! i = p"
    by (auto simp: in_set_conv_nth)
  obtain n s where ns: "sl ! i = (n, s)" by (cases "sl ! i")
  from i len ns have mem: "(p, (n, s)) \<in> set (zip ps sl)"
    by (auto simp: set_zip)
  from bind_defaults_required [OF df len mem assms(3)] obtain v where v: "s = Some v" ..
  from names i len ns have n: "n = pname p"
    by (metis fst_conv nth_map)
  from i len ns v n have "(pname p, Some v) \<in> set sl"
    by (auto simp: in_set_conv_nth)
  from bind_keywords_filled [OF sl this] bind_positional_filled show ?thesis
    by blast
qed

section \<open>Properties of the call surface\<close>

lemmas signatures = upload_def download_def delete_def list_objects_def required_def optional_def
lemmas bodies = upload_body_def download_body_def delete_body_def list_objects_body_def
lemmas binding = bind_args_def bind_positional_def

text \<open>
  Claim C1. Each of \<^verbatim>\<open>upload\<close>, \<^verbatim>\<open>download\<close>, \<^verbatim>\<open>delete\<close> and
  \<^verbatim>\<open>list_objects\<close> fails unconditionally: on every frame of argument values and in every
  world its body raises \<^verbatim>\<open>NotImplementedError\<close>; no call, whatever its arguments,
  returns normally; and a call whose arguments bind to the signature (a well-formed call)
  raises \<^verbatim>\<open>NotImplementedError\<close>.
\<close>

theorem stubs_always_raise:
  "(\<exists>m. fst (body upload fr w) = Inl (NotImplementedError m))
 \<and> (\<exists>m. fst (body download fr w) = Inl (NotImplementedError m))
 \<and> (\<exists>m. fst (body delete fr w) = Inl (NotImplementedError m))
 \<and> (\<exists>m. fst (body list_objects fr w) = Inl (NotImplementedError m))
 \<and> (\<forall>v. fst (call upload args kwargs w) \<noteq> Inr v)
 \<and> (\<forall>v. fst (call download args kwargs w) \<noteq> Inr v)
 \<and> (\<forall>v. fst (call delete args kwargs w) \<noteq> Inr v)
 \<and> (\<forall>v. fst (call list_objects args kwargs w) \<noteq> Inr v)
 \<and> (bind_args (parameters upload) args kwargs = Inr bound \<longrightarrow>
        (\<exists>m. fst (call upload args kwargs w) = Inl (NotImplementedError m)))
 \<and> (bind_args (parameters download) args kwargs = Inr bound \<longrightarrow>
        (\<exists>m. fst (call download args kwargs w) = Inl (NotImplementedError m)))
 \<and> (bind_args (parameters delete) args kwargs = Inr bound \<longrightarrow>
        (\<exists>m. fst (call delete args kwargs w) = Inl (NotImplementedError m)))
 \<and> (bind_args (parameters list_objects) args kwargs = Inr bound \<longrightarrow>
        (\<exists>m. fst (call list_objects args kwargs w) = Inl (NotImplementedError m)))"
  by (simp add: call_def signatures bodies split: sum.split)

text \<open>The calls of \<^verbatim>\<open>tests/test_storage.py\<close> bind and raise.\<close>

theorem stubs_always_raise_witness:
  "bind_args (parameters upload) []
       [(''bucket'', PStr ''test''), (''source'', PStr ''file.txt''),
        (''destination'', PStr ''dest.txt'')]
     = Inr [(''bucket'', PStr ''test''), (''source'', PStr ''file.txt''),
            (''destination'', PStr ''dest.txt'')]
 \<and> (\<exists>m. fst (call upload []
         [(''bucket'', PStr ''test''), (''source'', PStr ''file.txt''),
          (''destination'', PStr ''dest.txt'')]
         \<lparr>environ = Map.empty, files = Map.empty, stdout = []\<rparr>)
       = Inl (NotImplementedError m))
 \<and> bind_args (parameters download) []
       [(''bucket'', PStr ''test''), (''source'', PStr ''file.txt''),
        (''destination'', PStr ''dest.txt'')]
     = Inr [(''bucket'', PStr ''test''), (''source'', PStr ''file.txt''),
            (''destination'', PStr ''dest.txt'')]
 \<and> (\<exists>m. fst (call download []
         [(''bucket'', PStr ''test''), (''source'', PStr ''file.txt''),
          (''destination'', PStr ''dest.txt'')]
         \<lparr>environ = Map.empty, files = Map.empty, stdout = []\<rparr>)
       = Inl (NotImplementedError m))
 \<and> bind_args (parameters delete) []
       [(''bucket'', PStr ''test''), (''path'', PStr ''file.txt'')]
     = Inr [(''bucket'', PStr ''test''), (''path'', PStr ''file.txt'')]
 \<and> (\<exists>m. fst (call delete []
         [(''bucket'', PStr ''test''), (''path'', PStr ''file.txt'')]
         \<lparr>environ = Map.empty, files = Map.empty, stdout = []\<rparr>)
       = Inl (NotImplementedError m))
 \<and> bind_args (parameters list_objects) [] [(''bucket'', PStr ''test'')]
     = Inr [(''bucket'', PStr ''test''), (''prefix'', PStr '''')]
 \<and> (\<exists>m. fst (call list_objects [] [(''bucket'', PStr ''test'')]
         \<lparr>environ = Map.empty, files = Map.empty, stdout = []\<rparr>)
       = Inl (NotImplementedError m))"
proof -
  let ?w = "\<lparr>environ = Map.empty, files = Map.empty, stdout = []\<rparr>"
  let ?three = "[(''bucket'', PStr ''test''), (''source'', PStr ''file.txt''),
                 (''destination'', PStr ''dest.txt'')]"
  let ?two = "[(''bucket'', PStr ''test''), (''path'', PStr ''file.txt'')]"
  let ?one = "[(''bucket'', PStr ''test'')]"
  have up: "bind_args (parameters upload) [] ?three = Inr ?three"
    by (simp add: binding signatures)
  have down: "bind_args (parameters download) [] ?three = Inr ?three"
    by (simp add: binding signatures)
  have del: "bind_args (parameters delete) [] ?two = Inr ?two"
    by (simp add: binding signatures)
  have lst: "bind_args (parameters list_objects) [] ?one
               = Inr [(''bucket'', PStr ''test''), (''prefix'', PStr '''')]"
    by (simp add: binding signatures)
  note three = stubs_always_raise [where args = "[]" and kwargs = ?three and bound = ?three
      and w = ?w]
  note two = stubs_always_raise [where args = "[]" and kwargs = ?two and bound = ?two
      and w = ?w]
  note one = stubs_always_raise [where args = "[]" and kwargs = ?one
      and bound = "[(''bucket'', PStr ''test''), (''prefix'', PStr '''')]" and w = ?w]
  from up three have 1: "\<exists>m. fst (call upload [] ?three ?w) = Inl (NotImplementedError m)"
    by blast
  from down three have 2: "\<exists>m. fst (call download [] ?three ?w) = Inl (NotImplementedError m)"
    by blast
  from del two have 3: "\<exists>m. fst (call delete [] ?two ?w) = Inl (NotImplementedError m)"
    by blast
  from lst one have 4: "\<exists>m. fst (call list_objects [] ?one ?w) = Inl (NotImplementedError m)"
    by blast
  from up down del lst 1 2 3 4 show ?thesis by blast
qed

text \<open>
  Claim C2. The public export list of the module is exactly the four operation names
  \<^verbatim>\<open>upload\<close>, \<^verbatim>\<open>download\<close>, \<^verbatim>\<open>delete\<close>, \<^verbatim>\<open>list_objects\<close>, each once, no more
  and no fewer, and the module binds each of these names to the function of that name.
\<close>

theorem storage_exports_four_operations:
  "exports storage = Some [''upload'', ''download'', ''delete'', ''list_objects'']
 \<and> (\<exists>ns. exports storage = Some ns \<and> distinct ns \<and> length ns = 4
        \<and> set ns = {''upload'', ''download'', ''delete'', ''list_objects''})
 \<and> map_of storage ''upload'' = Some (Function upload)
 \<and> map_of storage ''download'' = Some (Function download)
 \<and> map_of storage ''delete'' = Some (Function delete)
 \<and> map_of storage ''list_objects'' = Some (Function list_objects)
 \<and> map (\<lambda>n. is_function (map_of storage n))
       [''upload'', ''download'', ''delete'', ''list_objects''] = [True, True, True, True]
 \<and> map name [upload, download, delete, list_objects]
       = [''upload'', ''download'', ''delete'', ''list_objects'']"
  by (simp add: exports_def storage_def signatures)

text \<open>
  Claim C3. Every operation accepts each of its parameters by keyword. The parameters of
  \<^verbatim>\<open>upload\<close> are exactly \<^verbatim>\<open>bucket\<close>, \<^verbatim>\<open>source\<close>, \<^verbatim>\<open>destination\<close>, in that order
  and all without a default; a call that passes the three by keyword, in the order of the
  signature or in another one, binds them, and so do the all-keyword calls of
  \<^verbatim>\<open>download\<close>, \<^verbatim>\<open>delete\<close> and \<^verbatim>\<open>list_objects\<close> (keywords \<^verbatim>\<open>bucket\<close> and
  \<^verbatim>\<open>prefix\<close>). The call \<^verbatim>\<open>upload(bucket="b", source="s", destination="d")\<close> is
  well-formed: it reaches the body, which raises \<^verbatim>\<open>NotImplementedError\<close>.
\<close>

theorem operations_accept_keywords:
  "map (\<lambda>p. (pname p, pdefault p)) (parameters upload)
     = [(''bucket'', None), (''source'', None), (''destination'', None)]
 \<and> bind_args (parameters upload) [] [(''bucket'', b), (''source'', s), (''destination'', d)]
     = Inr [(''bucket'', b), (''source'', s), (''destination'', d)]
 \<and> bind_args (parameters upload) [] [(''destination'', d), (''bucket'', b), (''source'', s)]
     = Inr [(''bucket'', b), (''source'', s), (''destination'', d)]
 \<and> bind_args (parameters download) [] [(''bucket'', b), (''source'', s), (''destination'', d)]
     = Inr [(''bucket'', b), (''source'', s), (''destination'', d)]
 \<and> bind_args (parameters delete) [] [(''bucket'', b), (''path'', p)]
     = Inr [(''bucket'', b), (''path'', p)]
 \<and> bind_args (parameters list_objects) [] [(''bucket'', b), (''prefix'', p)]
     = Inr [(''bucket'', b), (''prefix'', p)]
 \<and> (\<exists>m. call upload []
        [(''bucket'', PStr ''b''), (''source'', PStr ''s''), (''destination'', PStr ''d'')] w
      = (Inl (NotImplementedError m), w))"
  by (simp add: call_def binding signatures bodies)

text \<open>
  Claim C4. No operation reads the environment or any other part of the world. Two runs of
  the same body, on any two frames of arguments and in any two worlds, raise the same
  exception; a call with given arguments has the same result in every world; whatever the
  process environment holds, the exception is \<^verbatim>\<open>NotImplementedError\<close> with one fixed
  message text, the same for the four operations; and a call of \<^verbatim>\<open>upload\<close> with
  \<^verbatim>\<open>INFRAR_PROVIDER\<close> set fails exactly as one without it and with other arguments.
\<close>

theorem stub_outcome_ignores_environment:
  "fst (body upload fr1 w1) = fst (body upload fr2 w2)
 \<and> fst (body download fr1 w1) = fst (body download fr2 w2)
 \<and> fst (body delete fr1 w1) = fst (body delete fr2 w2)
 \<and> fst (body list_objects fr1 w1) = fst (body list_objects fr2 w2)
 \<and> fst (call upload args kwargs w1) = fst (call upload args kwargs w2)
 \<and> fst (call download args kwargs w1) = fst (call download args kwargs w2)
 \<and> fst (call delete args kwargs w1) = fst (call delete args kwargs w2)
 \<and> fst (call list_objects args kwargs w1) = fst (call list_objects args kwargs w2)
 \<and> fst (body upload fr1 (w1\<lparr>environ := env\<rparr>)) = Inl (NotImplementedError
      ''This function is transformed at deployment time. For local development, set INFRAR_PROVIDER environment variable or install provider-specific extras: pip install infrar[aws]'')
 \<and> fst (body download fr1 (w1\<lparr>environ := env\<rparr>)) = Inl (NotImplementedError
      ''This function is transformed at deployment time. For local development, set INFRAR_PROVIDER environment variable or install provider-specific extras: pip install infrar[aws]'')
 \<and> fst (body delete fr1 (w1\<lparr>environ := env\<rparr>)) = Inl (NotImplementedError
      ''This function is transformed at deployment time. For local development, set INFRAR_PROVIDER environment variable or install provider-specific extras: pip install infrar[aws]'')
 \<and> fst (body list_objects fr1 (w1\<lparr>environ := env\<rparr>)) = Inl (NotImplementedError
      ''This function is transformed at deployment time. For local development, set INFRAR_PROVIDER environment variable or install provider-specific extras: pip install infrar[aws]'')
 \<and> fst (call upload [PStr ''b'', PStr ''s'', PStr ''d''] []
        \<lparr>environ = [''INFRAR_PROVIDER'' \<mapsto> ''aws''], files = Map.empty, stdout = []\<rparr>)
     = fst (call upload [] [(''bucket'', PInt 1), (''source'', PNone), (''destination'', PList [])]
        \<lparr>environ = Map.empty, files = Map.empty, stdout = []\<rparr>)"
  by (simp add: call_def binding signatures bodies split: sum.split)

text \<open>
  Claim C5. Every operation raises without looking at its arguments and without any effect:
  the outcome of a body does not depend on the frame, the world after a body or after any
  call is the world before it, and calls whose arguments are not strings (an integer,
  \<^verbatim>\<open>None\<close>, a list) raise \<^verbatim>\<open>NotImplementedError\<close> and leave the world as it was.
\<close>

theorem stubs_leave_world_unchanged:
  "body upload fr1 w = body upload fr2 w
 \<and> body download fr1 w = body download fr2 w
 \<and> body delete fr1 w = body delete fr2 w
 \<and> body list_objects fr1 w = body list_objects fr2 w
 \<and> snd (body upload fr w) = w
 \<and> snd (body download fr w) = w
 \<and> snd (body delete fr w) = w
 \<and> snd (body list_objects fr w) = w
 \<and> snd (call upload args kwargs w) = w
 \<and> snd (call download args kwargs w) = w
 \<and> snd (call delete args kwargs w) = w
 \<and> snd (call list_objects args kwargs w) = w
 \<and> (\<exists>m. call upload [PInt 1, PNone, PList [PBool True]] [] w
        = (Inl (NotImplementedError m), w))
 \<and> (\<exists>m. call download [PInt 1, PNone, PList [PBool True]] [] w
        = (Inl (NotImplementedError m), w))
 \<and> (\<exists>m. call delete [PInt 1, PNone] [] w = (Inl (NotImplementedError m), w))
 \<and> (\<exists>m. call list_objects [PInt 1, PNone] [] w = (Inl (NotImplementedError m), w))"
  by (simp add: call_def binding signatures bodies split: sum.split)

text \<open>
  Claim C6. The parameter \<^verbatim>\<open>prefix\<close> of \<^verbatim>\<open>list_objects\<close> is optional and defaults to the
  empty string: \<^verbatim>\<open>list_objects(bucket=b)\<close> binds the same frame and has the same result
  as \<^verbatim>\<open>list_objects(bucket=b, prefix="")\<close>. No parameter of \<^verbatim>\<open>upload\<close>,
  \<^verbatim>\<open>download\<close> or \<^verbatim>\<open>delete\<close> has a default: a call of one of them that binds
  supplies every parameter, by position or by keyword, and a call that leaves one out is
  refused with the missing parameter named.
\<close>

theorem list_objects_prefix_default:
  "bind_args (parameters list_objects) [] [(''bucket'', b)]
     = Inr [(''bucket'', b), (''prefix'', PStr '''')]
 \<and> bind_args (parameters list_objects) [] [(''bucket'', b)]
     = bind_args (parameters list_objects) [] [(''bucket'', b), (''prefix'', PStr '''')]
 \<and> call list_objects [] [(''bucket'', b)] w
     = call list_objects [] [(''bucket'', b), (''prefix'', PStr '''')] w
 \<and> map pdefault (parameters list_objects) = [None, Some (PStr '''')]
 \<and> map pdefault (parameters upload) = [None, None, None]
 \<and> map pdefault (parameters download) = [None, None, None]
 \<and> map pdefault (parameters delete) = [None, None]
 \<and> (bind_args (parameters upload) args kwargs = Inr fr \<longrightarrow>
      set (map pname (parameters upload))
        \<subseteq> set (take (length args) (map pname (parameters upload))) \<union> fst ` set kwargs)
 \<and> (bind_args (parameters download) args kwargs = Inr fr \<longrightarrow>
      set (map pname (parameters download))
        \<subseteq> set (take (length args) (map pname (parameters download))) \<union> fst ` set kwargs)
 \<and> (bind_args (parameters delete) args kwargs = Inr fr \<longrightarrow>
      set (map pname (parameters delete))
        \<subseteq> set (take (length args) (map pname (parameters delete))) \<union> fst ` set kwargs)
 \<and> bind_args (parameters upload) [] [(''bucket'', b), (''source'', s)]
     = Inl (MissingRequired [''destination''])
 \<and> bind_args (parameters download) [b] [(''destination'', d)]
     = Inl (MissingRequired [''source''])
 \<and> bind_args (parameters delete) [b] [] = Inl (MissingRequired [''path''])"
proof -
  have req: "\<And>f args kwargs fr. \<forall>p \<in> set (parameters f). pdefault p = None \<Longrightarrow>
      bind_args (parameters f) args kwargs = Inr fr \<Longrightarrow>
      set (map pname (parameters f))
        \<subseteq> set (take (length args) (map pname (parameters f))) \<union> fst ` set kwargs"
    using bind_args_supplied by fastforce
  have up: "\<forall>p \<in> set (parameters upload). pdefault p = None"
    by (simp add: signatures)
  have down: "\<forall>p \<in> set (parameters download). pdefault p = None"
    by (simp add: signatures)
  have del: "\<forall>p \<in> set (parameters delete). pdefault p = None"
    by (simp add: signatures)
  have evals: "bind_args (parameters list_objects) [] [(''bucket'', b)]
       = Inr [(''bucket'', b), (''prefix'', PStr '''')]"
    "bind_args (parameters list_objects) [] [(''bucket'', b), (''prefix'', PStr '''')]
       = Inr [(''bucket'', b), (''prefix'', PStr '''')]"
    "map pdefault (parameters list_objects) = [None, Some (PStr '''')]"
    "map pdefault (parameters upload) = [None, None, None]"
    "map pdefault (parameters download) = [None, None, None]"
    "map pdefault (parameters delete) = [None, None]"
    "bind_args (parameters upload) [] [(''bucket'', b), (''source'', s)]
       = Inl (MissingRequired [''destination''])"
    "bind_args (parameters download) [b] [(''destination'', d)]
       = Inl (MissingRequired [''source''])"
    "bind_args (parameters delete) [b] [] = Inl (MissingRequired [''path''])"
    by (simp_all add: binding signatures)
  have calls: "call list_objects [] [(''bucket'', b)] w
     = call list_objects [] [(''bucket'', b), (''prefix'', PStr '''')] w"
    by (simp add: call_def evals)
  have same: "bind_args (parameters list_objects) [] [(''bucket'', b)]
     = bind_args (parameters list_objects) [] [(''bucket'', b), (''prefix'', PStr '''')]"
    by (simp only: evals)
  have u: "bind_args (parameters upload) args kwargs = Inr fr \<longrightarrow>
      set (map pname (parameters upload))
        \<subseteq> set (take (length args) (map pname (parameters upload))) \<union> fst ` set kwargs"
    by (rule impI) (rule req [OF up])
  have d: "bind_args (parameters download) args kwargs = Inr fr \<longrightarrow>
      set (map pname (parameters download))
        \<subseteq> set (take (length args) (map pname (parameters download))) \<union> fst ` set kwargs"
    by (rule impI) (rule req [OF down])
  have l: "bind_args (parameters delete) args kwargs = Inr fr \<longrightarrow>
      set (map pname (parameters delete))
        \<subseteq> set (take (length args) (map pname (parameters delete))) \<union> fst ` set kwargs"
    by (rule impI) (rule req [OF del])
  show ?thesis
    by (intro conjI) (rule evals same calls u d l)+
qed

text \<open>Calls of \<^verbatim>\<open>upload\<close>, \<^verbatim>\<open>download\<close> and \<^verbatim>\<open>delete\<close> that bind: mixed, all
  positional, all by keyword.\<close>

theorem list_objects_prefix_default_witness:
  "bind_args (parameters upload) [PStr ''b''] [(''destination'', PStr ''d''), (''source'', PStr ''s'')]
     = Inr [(''bucket'', PStr ''b''), (''source'', PStr ''s''), (''destination'', PStr ''d'')]
 \<and> set (map pname (parameters upload))
       \<subseteq> set (take (length [PStr ''b'']) (map pname (parameters upload)))
         \<union> fst ` set [(''destination'', PStr ''d''), (''source'', PStr ''s'')]
 \<and> bind_args (parameters download) [PStr ''b'', PStr ''s'', PStr ''d''] []
     = Inr [(''bucket'', PStr ''b''), (''source'', PStr ''s''), (''destination'', PStr ''d'')]
 \<and> set (map pname (parameters download))
       \<subseteq> set (take (length [PStr ''b'', PStr ''s'', PStr ''d'']) (map pname (parameters download)))
         \<union> fst ` set ([] :: (string \<times> pyval) list)
 \<and> bind_args (parameters delete) [] [(''bucket'', PStr ''b''), (''path'', PStr ''p'')]
     = Inr [(''bucket'', PStr ''b''), (''path'', PStr ''p'')]
 \<and> set (map pname (parameters delete))
       \<subseteq> set (take (length ([] :: pyval list)) (map pname (parameters delete)))
         \<union> fst ` set [(''bucket'', PStr ''b''), (''path'', PStr ''p'')]"
proof -
  let ?bsd = "[(''bucket'', PStr ''b''), (''source'', PStr ''s''), (''destination'', PStr ''d'')]"
  let ?bp = "[(''bucket'', PStr ''b''), (''path'', PStr ''p'')]"
  have up: "bind_args (parameters upload) [PStr ''b'']
       [(''destination'', PStr ''d''), (''source'', PStr ''s'')] = Inr ?bsd"
    by (simp add: binding signatures)
  have down: "bind_args (parameters download) [PStr ''b'', PStr ''s'', PStr ''d''] [] = Inr ?bsd"
    by (simp add: binding signatures)
  have del: "bind_args (parameters delete) [] ?bp = Inr ?bp"
    by (simp add: binding signatures)
  note u = list_objects_prefix_default [where args = "[PStr ''b'']"
      and kwargs = "[(''destination'', PStr ''d''), (''source'', PStr ''s'')]" and fr = ?bsd]
  note d = list_objects_prefix_default [where args = "[PStr ''b'', PStr ''s'', PStr ''d'']"
      and kwargs = "[]" and fr = ?bsd]
  note l = list_objects_prefix_default [where args = "[]" and kwargs = ?bp and fr = ?bp]
  from up u have 1: "set (map pname (parameters upload))
       \<subseteq> set (take (length [PStr ''b'']) (map pname (parameters upload)))
         \<union> fst ` set [(''destination'', PStr ''d''), (''source'', PStr ''s'')]"
    by blast
  from down d have 2: "set (map pname (parameters download))
       \<subseteq> set (take (length [PStr ''b'', PStr ''s'', PStr ''d'']) (map pname (parameters download)))
         \<union> fst ` set ([] :: (string \<times> pyval) list)"
    by blast
  from del l have 3: "set (map pname (parameters delete))
       \<subseteq> set (take (length ([] :: pyval list)) (map pname (parameters delete)))
         \<union> fst ` set ?bp"
    by blast
  from up down del 1 2 3 show ?thesis by blast
qed

end
